theory Spec2Isabelle
  imports Complex_Main
begin

section \<open>Data model (models/api.models.ts)\<close>

text \<open>
  An optional field \<^verbatim>\<open>f?: T\<close> is a \<^typ>\<open>'a option\<close>, \<open>None\<close> standing for
  \<^verbatim>\<open>undefined\<close>. The string-literal union \<^verbatim>\<open>'DECREASE' | 'MAINTAIN' | 'INCREASE'\<close> is a
  datatype. Record fields are global names in HOL, so a field name that several interfaces
  share carries a prefix.

  A TypeScript \<^verbatim>\<open>number\<close> that the code only stores, passes on or compares with zero is
  modelled as a \<^typ>\<open>real\<close>. The code does arithmetic on the confidence values only; those
  are IEEE 754 doubles in the model, with the addition and the division by two of the
  language.
\<close>

subsection \<open>Doubles\<close>

text \<open>
  A \<^verbatim>\<open>number\<close> of the language is NaN, an infinity, or the finite double
  \<open>m * 2^e\<close>, written \<open>Double m e\<close>. A double has \<open>\<bar>m\<bar> < 2^53\<close> and
  \<open>-1074 \<le> e \<le> 971\<close>. The two zeros are not told apart, as \<^verbatim>\<open>===\<close> does not tell
  them apart.
\<close>

datatype number = NaN | PosInfinity | NegInfinity | Double (mantissa: int) (exponent: int)











subsection \<open>The interfaces\<close>

datatype action = DECREASE | MAINTAIN | INCREASE

text \<open>The shape of \<^verbatim>\<open>current_resources\<close>, \<^verbatim>\<open>proposed_resources\<close> and \<^verbatim>\<open>current_usage\<close>.\<close>

record resources =
  cpu_cores :: real
  memory_mb :: real

text \<open>
  \<^verbatim>\<open>confidence?: number | { cpu: number; memory: number }\<close>. The code reads the two
  components of the object without a guard, so a component that is missing from the
  object the backend sent is \<open>None\<close>.
\<close>

datatype confidence =
  ConfNumber number | ConfObject (conf_cpu: "number option") (conf_memory: "number option")

record current_metrics =
  cpu_limit :: real
  cpu_usage :: real
  memory_limit_mb :: real
  memory_usage_mb :: real

record future_predictions =
  fp_cpu :: real
  fp_memory :: real

text \<open>
  The interface declares \<^verbatim>\<open>cpu\<close> and \<^verbatim>\<open>memory\<close> as required inside
  \<^verbatim>\<open>resource_changes\<close>; the accessors of the decisions view still guard them
  (\<^verbatim>\<open>resource_changes?.cpu?.new\<close>), so the model keeps each of them optional and every
  guard of the source is a branch of the model. The interface also declares
  \<^verbatim>\<open>change_percent\<close> as required inside an entry. What the backend sends is not checked
  against the interface, and the two accessors that read the field differ on an entry that
  came without it (\<^verbatim>\<open>change_percent || 0\<close> and \<^verbatim>\<open>change_percent !== 0\<close>), so the field
  is optional in the model.
\<close>

record resource_change =
  rc_action :: string
  change_percent :: "real option"
  rc_current :: real
  rc_new :: real

record resource_changes =
  rc_cpu :: "resource_change option"
  rc_memory :: "resource_change option"

record utilization =
  cpu_percentage :: real
  memory_percentage :: real

record ScalingDecision =
  pod :: "string option"
  namespace :: string
  pod_name :: string
  action :: "action option"
  action_index :: "real option"
  confidence :: "confidence option"
  q_values :: "real list option"
  current_resources :: "resources option"
  proposed_resources :: "resources option"
  current_usage :: "resources option"
  timestamp :: string
  applied :: "bool option"
  reason :: "string option"
  can_scale :: "bool option"
  cpu_action :: "action option"
  memory_action :: "action option"
  current_metrics :: "current_metrics option"
  future_predictions :: "future_predictions option"
  resource_changes :: "resource_changes option"
  utilization :: "utilization option"

section \<open>Decision normalizer (components/decisions/decisions.component.ts)\<close>

text \<open>
  \<^verbatim>\<open>if (x) return x; return y\<close> and \<^verbatim>\<open>x || y\<close> on an optional number: JavaScript takes
  \<^verbatim>\<open>undefined\<close> and \<open>0\<close> as false, so both fall through to \<open>y\<close>.
\<close>

fun js_or :: "real option \<Rightarrow> real \<Rightarrow> real" where
  "js_or None y = y"
| "js_or (Some x) y = (if x \<noteq> 0 then x else y)"

text \<open>A value is available when it is present and not zero.\<close>

fun available :: "real option \<Rightarrow> bool" where
  "available None = False"
| "available (Some x) = (x \<noteq> 0)"

text \<open>
  \<^verbatim>\<open>getOverallAction\<close>: every value of the union type is a non-empty string, so
  \<^verbatim>\<open>if (decision.action)\<close> tests presence.
\<close>

definition getOverallAction :: "ScalingDecision \<Rightarrow> action" where
  "getOverallAction decision =
     (case action decision of
        Some a \<Rightarrow> a
      | None \<Rightarrow>
          (case (cpu_action decision, memory_action decision) of
             (Some c, Some m) \<Rightarrow>
               if c = INCREASE \<or> m = INCREASE then INCREASE
               else if c = DECREASE \<or> m = DECREASE then DECREASE
               else MAINTAIN
           | _ \<Rightarrow> MAINTAIN))"


definition hasEnhancedFormat :: "ScalingDecision \<Rightarrow> bool" where
  "hasEnhancedFormat decision \<longleftrightarrow> cpu_action decision \<noteq> None \<and> memory_action decision \<noteq> None"

definition getCurrentCpuCores :: "ScalingDecision \<Rightarrow> real" where
  "getCurrentCpuCores decision =
     js_or (map_option cpu_cores (current_resources decision))
       (js_or (map_option cpu_usage (current_metrics decision)) 0)"

definition getProposedCpuCores :: "ScalingDecision \<Rightarrow> real" where
  "getProposedCpuCores decision =
     js_or (map_option cpu_cores (proposed_resources decision))
       (js_or (map_option rc_new (Option.bind (resource_changes decision) rc_cpu))
          (getCurrentCpuCores decision))"

definition getCurrentMemoryMb :: "ScalingDecision \<Rightarrow> real" where
  "getCurrentMemoryMb decision =
     js_or (map_option memory_mb (current_resources decision))
       (js_or (map_option memory_usage_mb (current_metrics decision)) 0)"

definition getProposedMemoryMb :: "ScalingDecision \<Rightarrow> real" where
  "getProposedMemoryMb decision =
     js_or (map_option memory_mb (proposed_resources decision))
       (js_or (map_option rc_new (Option.bind (resource_changes decision) rc_memory))
          (getCurrentMemoryMb decision))"





text \<open>A decision that carries the three required fields only.\<close>

definition bare_decision :: ScalingDecision where
  "bare_decision =
     \<lparr> pod = None, namespace = ''default'', pod_name = ''web-0'', action = None,
       action_index = None, confidence = None, q_values = None, current_resources = None,
       proposed_resources = None, current_usage = None, timestamp = ''2025-01-01T00:00:00'',
       applied = None, reason = None, can_scale = None, cpu_action = None,
       memory_action = None, current_metrics = None, future_predictions = None,
       resource_changes = None, utilization = None \<rparr>"

text \<open>The other interfaces of the model file.\<close>

record owner =
  o_kind :: string
  o_name :: string
  o_uid :: string

record Pod =
  p_name :: string
  p_namespace :: string
  p_uid :: string
  p_labels :: "(string \<times> string) list"
  p_owner :: "owner option"

record PodMetrics =
  cpu_usage_cores :: real
  pm_memory_usage_mb :: real
  pm_timestamp :: string

record limits =
  l_cpu_cores :: real
  l_memory_mb :: real

record PodResources =
  cpu_requests_cores :: real
  memory_requests_mb :: real
  pr_limits :: limits

record action_counts =
  n_DECREASE :: real
  n_INCREASE :: real
  n_MAINTAIN :: real

record action_distribution =
  cpu_actions :: action_counts
  memory_actions :: action_counts

record model_performance =
  average_cpu_confidence :: real
  average_memory_confidence :: real
  model_type :: string

record overview =
  applied_scalings :: real
  scaling_rate :: real
  total_decisions :: real
  total_pods_monitored :: real

record resource_utilization =
  average_cpu_usage :: real
  average_memory_usage_mb :: real

record system_status =
  cooldown_period_minutes :: real
  dry_run_mode :: bool
  kubernetes_available :: bool
  ss_scale_factor :: real

record Statistics =
  s_action_distribution :: action_distribution
  s_model_performance :: model_performance
  s_overview :: overview
  s_resource_utilization :: resource_utilization
  s_system_status :: system_status
  s_timestamp :: string

record Config =
  model_path :: string
  state_dim :: real
  action_dim :: real
  history_window :: real
  min_cpu :: real
  max_cpu :: real
  min_memory :: real
  max_memory :: real
  scale_factor :: real
  dry_run :: bool
  in_cluster :: bool
  namespaces :: "string list"
  auto_scale_enabled :: bool
  auto_scale_interval :: real
  scaling_cooldown :: real

text \<open>\<^verbatim>\<open>Partial<Config>\<close>: the fields the config view sends; a field left out is \<open>None\<close>.\<close>

record ConfigUpdates =
  u_dry_run :: "bool option"
  u_scale_factor :: "real option"
  u_auto_scale_enabled :: "bool option"
  u_auto_scale_interval :: "real option"
  u_scaling_cooldown :: "real option"
  u_namespaces :: "string list option"

record AutoscaleStatus =
  as_enabled :: bool
  as_running :: bool
  interval_seconds :: real
  thread_alive :: bool

record HealthStatus =
  h_status :: string
  h_service :: string
  h_timestamp :: string

section \<open>Gateway client (services/api.service.ts)\<close>

subsection \<open>The HTTP client and observables\<close>

text \<open>
  Angular's \<^verbatim>\<open>HttpClient\<close> is a collaborator of the repository, so it is a parameter of
  the model: a function from the request to what the client notifies, either a parsed body
  or an \<^verbatim>\<open>HttpErrorResponse\<close>. \<^verbatim>\<open>get<T>\<close> asserts the type of the body without
  checking it, so the parameter is taken at the type the call site asserts. Network
  failures, non-2xx statuses and bodies that do not parse all reach the service as an
  \<^verbatim>\<open>HttpErrorResponse\<close>.

  An observable of the client is cold and notifies once. Subscribing to it is modelled by
  its outcome: the requests it issued and its notification, \<open>Inl\<close> for the error
  notification and \<open>Inr\<close> for the value. Logging to the console is not part of the model.
\<close>

datatype http_method = GET | POST

datatype body = EmptyObject | ConfigBody ConfigUpdates

record request =
  req_method :: http_method
  req_url :: string
  req_body :: "body option"
  req_headers :: "(string \<times> string) list"

text \<open>
  The \<^verbatim>\<open>error\<close> field of an \<^verbatim>\<open>HttpErrorResponse\<close> is an \<^verbatim>\<open>ErrorEvent\<close> with its
  message, or anything else (a progress event, the body of an error status, a parse failure).
\<close>

datatype error_body = ErrorEvent (ee_message: string) | OtherError

record HttpErrorResponse =
  he_error :: error_body
  he_status :: nat
  he_message :: string

datatype js_error = Error (err_message: string)

type_synonym 'b http = "request \<Rightarrow> HttpErrorResponse + 'b"

definition http_get :: "'b http \<Rightarrow> string \<Rightarrow> request list \<times> (HttpErrorResponse + 'b)" where
  "http_get http url =
     (let r = \<lparr> req_method = GET, req_url = url, req_body = None, req_headers = [] \<rparr>
      in ([r], http r))"

definition http_post ::
  "'b http \<Rightarrow> string \<Rightarrow> body \<Rightarrow> (string \<times> string) list \<Rightarrow> request list \<times> (HttpErrorResponse + 'b)"
where
  "http_post http url b hs =
     (let r = \<lparr> req_method = POST, req_url = url, req_body = Some b, req_headers = hs \<rparr>
      in ([r], http r))"

definition throwError :: "'e \<Rightarrow> 'e + 'b" where
  "throwError e = Inl e"

text \<open>
  \<^verbatim>\<open>catchError(selector)\<close>: a value passes through, an error notification is replaced by
  the observable the selector returns. No request is issued again.
\<close>

definition catchError :: "('e \<Rightarrow> 'f + 'b) \<Rightarrow> 'r list \<times> ('e + 'b) \<Rightarrow> 'r list \<times> ('f + 'b)" where
  "catchError selector src =
     (fst src, case snd src of Inl e \<Rightarrow> selector e | Inr v \<Rightarrow> Inr v)"

text \<open>A template literal prints a non-negative integer in decimal.\<close>

fun show_nat :: "nat \<Rightarrow> string" where
  "show_nat n =
     (if n < 10 then [''0123456789'' ! n]
      else show_nat (n div 10) @ [''0123456789'' ! (n mod 10)])"

declare show_nat.simps [simp del]

subsection \<open>The service\<close>

definition apiUrl :: string where
  "apiUrl = ''http://localhost:5404''"

definition httpOptions :: "(string \<times> string) list" where
  "httpOptions = [(''Content-Type'', ''application/json'')]"

definition handleError :: "HttpErrorResponse \<Rightarrow> js_error + 'b" where
  "handleError error =
     (let errorMessage =
        (case he_error error of
           ErrorEvent m \<Rightarrow> ''Error: '' @ m
         | OtherError \<Rightarrow>
             ''Error Code: '' @ show_nat (he_status error) @ [CHR 0x0A] @ ''Message: ''
               @ he_message error)
      in throwError (Error errorMessage))"

record pods_response =
  pods_success :: bool
  pods_count :: real
  pods_pods :: "Pod list"

record pod_info_response =
  pi_success :: bool
  pi_pod :: string
  pi_metrics :: PodMetrics
  pi_resources :: PodResources

record scale_pod_response =
  sp_success :: bool
  sp_result :: ScalingDecision

record scale_all_response =
  sa_success :: bool
  sa_processed :: real
  sa_results :: "ScalingDecision list"
  sa_statistics :: Statistics
  sa_timestamp :: string

record decisions_response =
  dr_success :: bool
  dr_count :: real
  dr_decisions :: "ScalingDecision list"

record statistics_response =
  sr_success :: bool
  sr_statistics :: Statistics

record start_response =
  start_success :: bool
  start_message :: string
  start_interval :: real

record stop_response =
  stop_success :: bool
  stop_message :: string

text \<open>\<^verbatim>\<open>updateConfig\<close> returns \<^verbatim>\<open>Observable<any>\<close>; the config view reads its \<^verbatim>\<open>success\<close>.\<close>

record update_response =
  up_success :: bool

definition getHealth :: "HealthStatus http \<Rightarrow> request list \<times> (js_error + HealthStatus)" where
  "getHealth http = catchError handleError (http_get http (apiUrl @ ''/health''))"

definition getConfig :: "Config http \<Rightarrow> request list \<times> (js_error + Config)" where
  "getConfig http = catchError handleError (http_get http (apiUrl @ ''/config''))"

definition updateConfig ::
  "update_response http \<Rightarrow> ConfigUpdates \<Rightarrow> request list \<times> (js_error + update_response)"
where
  "updateConfig http config =
     catchError handleError (http_post http (apiUrl @ ''/config'') (ConfigBody config) httpOptions)"

definition getPods :: "pods_response http \<Rightarrow> request list \<times> (js_error + pods_response)" where
  "getPods http = catchError handleError (http_get http (apiUrl @ ''/pods''))"

definition getPodInfo ::
  "pod_info_response http \<Rightarrow> string \<Rightarrow> string \<Rightarrow> request list \<times> (js_error + pod_info_response)"
where
  "getPodInfo http ns podName =
     catchError handleError (http_get http (apiUrl @ ''/pods/'' @ ns @ ''/'' @ podName))"

definition scalePod ::
  "scale_pod_response http \<Rightarrow> string \<Rightarrow> string \<Rightarrow> request list \<times> (js_error + scale_pod_response)"
where
  "scalePod http ns podName =
     catchError handleError
       (http_post http (apiUrl @ ''/scale/pod/'' @ ns @ ''/'' @ podName) EmptyObject [])"

definition scaleAllPods ::
  "scale_all_response http \<Rightarrow> request list \<times> (js_error + scale_all_response)"
where
  "scaleAllPods http =
     catchError handleError (http_post http (apiUrl @ ''/scale/all'') EmptyObject [])"

definition getDecisions ::
  "decisions_response http \<Rightarrow> nat \<Rightarrow> request list \<times> (js_error + decisions_response)"
where
  "getDecisions http limit =
     catchError handleError (http_get http (apiUrl @ ''/decisions?limit='' @ show_nat limit))"

definition getStatistics ::
  "statistics_response http \<Rightarrow> request list \<times> (js_error + statistics_response)"
where
  "getStatistics http = catchError handleError (http_get http (apiUrl @ ''/statistics''))"

definition startAutoscale :: "start_response http \<Rightarrow> request list \<times> (js_error + start_response)" where
  "startAutoscale http =
     catchError handleError (http_post http (apiUrl @ ''/autoscale/start'') EmptyObject [])"

definition stopAutoscale :: "stop_response http \<Rightarrow> request list \<times> (js_error + stop_response)" where
  "stopAutoscale http =
     catchError handleError (http_post http (apiUrl @ ''/autoscale/stop'') EmptyObject [])"

definition getAutoscaleStatus ::
  "AutoscaleStatus http \<Rightarrow> request list \<times> (js_error + AutoscaleStatus)"
where
  "getAutoscaleStatus http =
     catchError handleError (http_get http (apiUrl @ ''/autoscale/status''))"

definition getModelInfo :: "'b http \<Rightarrow> request list \<times> (js_error + 'b)" where
  "getModelInfo http = catchError handleError (http_get http (apiUrl @ ''/model/info''))"

section \<open>Session guard (services/auth.service.ts)\<close>

text \<open>
  The state of the service: the browser's \<^verbatim>\<open>localStorage\<close>, the current value of the
  \<^verbatim>\<open>BehaviorSubject\<close>, and the values pushed to it with \<^verbatim>\<open>next\<close> so far, oldest first.
\<close>

record auth_state =
  localStorage :: "string \<rightharpoonup> string"
  subject_value :: bool
  emitted :: "bool list"

definition getStoredAuthState :: "(string \<rightharpoonup> string) \<Rightarrow> bool" where
  "getStoredAuthState storage \<longleftrightarrow> storage ''isAuthenticated'' = Some ''true''"

text \<open>The field initialiser: the subject starts from what the storage holds.\<close>

definition auth_init :: "(string \<rightharpoonup> string) \<Rightarrow> auth_state" where
  "auth_init storage =
     \<lparr> localStorage = storage, subject_value = getStoredAuthState storage, emitted = [] \<rparr>"

definition subject_next :: "bool \<Rightarrow> auth_state \<Rightarrow> auth_state" where
  "subject_next v st = st\<lparr> subject_value := v, emitted := emitted st @ [v] \<rparr>"

definition setItem :: "string \<Rightarrow> string \<Rightarrow> auth_state \<Rightarrow> auth_state" where
  "setItem k v st = st\<lparr> localStorage := (localStorage st)(k \<mapsto> v) \<rparr>"

definition removeItem :: "string \<Rightarrow> auth_state \<Rightarrow> auth_state" where
  "removeItem k st = st\<lparr> localStorage := (localStorage st)(k := None) \<rparr>"

text \<open>
  \<^verbatim>\<open>login\<close> returns a cold observable: \<^verbatim>\<open>of(isValid)\<close>, delayed by a second, then
  \<^verbatim>\<open>tap\<close>. The model is one subscription to it: the value it emits and the state once the
  \<^verbatim>\<open>tap\<close> has run. The delay itself is not modelled.
\<close>

definition login :: "string \<Rightarrow> string \<Rightarrow> auth_state \<Rightarrow> bool \<times> auth_state" where
  "login username password st =
     (let isValid = (username = ''admin'' \<and> password = ''admin'')
      in (isValid,
          if isValid
          then subject_next True
                 (setItem ''username'' username (setItem ''isAuthenticated'' ''true'' st))
          else st))"

definition logout :: "auth_state \<Rightarrow> auth_state" where
  "logout st =
     subject_next False (removeItem ''username'' (removeItem ''isAuthenticated'' st))"

definition isAuthenticated :: "auth_state \<Rightarrow> bool" where
  "isAuthenticated st = subject_value st"

definition getUsername :: "auth_state \<Rightarrow> string option" where
  "getUsername st = localStorage st ''username''"

text \<open>The calls a client of the service can make, and the state each leaves.\<close>

datatype auth_call = Login string string | Logout | IsAuthenticated | GetUsername

fun auth_step :: "auth_call \<Rightarrow> auth_state \<Rightarrow> auth_state" where
  "auth_step (Login u p) st = snd (login u p st)"
| "auth_step Logout st = logout st"
| "auth_step IsAuthenticated st = st"
| "auth_step GetUsername st = st"

section \<open>View controllers\<close>

text \<open>
  A subscription registers a \<^verbatim>\<open>next\<close> and an \<^verbatim>\<open>error\<close> callback; the notification of
  the observable selects the one that runs on the state of the component.
\<close>

definition subscribe ::
  "('b \<Rightarrow> 's \<Rightarrow> 's) \<Rightarrow> (js_error \<Rightarrow> 's \<Rightarrow> 's) \<Rightarrow> js_error + 'b \<Rightarrow> 's \<Rightarrow> 's"
where
  "subscribe next err n st = (case n of Inr v \<Rightarrow> next v st | Inl e \<Rightarrow> err e st)"

subsection \<open>Pods (components/pods/pods.component.ts)\<close>

record pods_state =
  pods :: "Pod list"
  pods_loading :: bool
  pods_error :: "string option"
  scalingPod :: "string option"

definition pods_init :: pods_state where
  "pods_init = \<lparr> pods = [], pods_loading = True, pods_error = None, scalingPod = None \<rparr>"

definition loadPods_next :: "pods_response \<Rightarrow> pods_state \<Rightarrow> pods_state" where
  "loadPods_next response st =
     (if pods_success response then st\<lparr> pods := pods_pods response \<rparr> else st)
       \<lparr> pods_loading := False \<rparr>"

definition loadPods_error :: "js_error \<Rightarrow> pods_state \<Rightarrow> pods_state" where
  "loadPods_error err st = st\<lparr> pods_error := Some ''Failed to load pods'', pods_loading := False \<rparr>"

text \<open>
  Every load method returns the requests it issued and the state of the component once
  the callback of the subscription has run.
\<close>

definition loadPods :: "pods_response http \<Rightarrow> pods_state \<Rightarrow> request list \<times> pods_state" where
  "loadPods http st =
     (let st1 = st\<lparr> pods_loading := True, pods_error := None \<rparr>;
          call = getPods http
      in (fst call, subscribe loadPods_next loadPods_error (snd call) st1))"

definition getPodKey :: "Pod \<Rightarrow> string" where
  "getPodKey p = p_namespace p @ ''/'' @ p_name p"

text \<open>
  \<^verbatim>\<open>scalePod\<close> of the pods view; \<open>confirmed\<close> is the answer of the \<^verbatim>\<open>confirm\<close> dialog.
  The \<^verbatim>\<open>alert\<close> dialogs show text and store nothing, so they are not part of the state.
\<close>

definition pods_scalePod_next :: "scale_pod_response \<Rightarrow> pods_state \<Rightarrow> pods_state" where
  "pods_scalePod_next response st = st\<lparr> scalingPod := None \<rparr>"

definition pods_scalePod_error :: "js_error \<Rightarrow> pods_state \<Rightarrow> pods_state" where
  "pods_scalePod_error err st = st\<lparr> scalingPod := None \<rparr>"

definition pods_scalePod ::
  "scale_pod_response http \<Rightarrow> bool \<Rightarrow> Pod \<Rightarrow> pods_state \<Rightarrow> request list \<times> pods_state"
where
  "pods_scalePod http confirmed p st =
     (if confirmed then
        (let st1 = st\<lparr> scalingPod := Some (p_namespace p @ ''/'' @ p_name p) \<rparr>;
             call = scalePod http (p_namespace p) (p_name p)
         in (fst call, subscribe pods_scalePod_next pods_scalePod_error (snd call) st1))
      else ([], st))"

subsection \<open>Decisions (components/decisions/decisions.component.ts)\<close>

record decisions_state =
  decisions :: "ScalingDecision list"
  decisions_loading :: bool
  decisions_error :: "string option"
  limit :: nat

definition decisions_init :: decisions_state where
  "decisions_init =
     \<lparr> decisions = [], decisions_loading = True, decisions_error = None, limit = 50 \<rparr>"

definition loadDecisions_next :: "decisions_response \<Rightarrow> decisions_state \<Rightarrow> decisions_state" where
  "loadDecisions_next response st =
     (if dr_success response then st\<lparr> decisions := rev (dr_decisions response) \<rparr> else st)
       \<lparr> decisions_loading := False \<rparr>"

definition loadDecisions_error :: "js_error \<Rightarrow> decisions_state \<Rightarrow> decisions_state" where
  "loadDecisions_error err st =
     st\<lparr> decisions_error := Some ''Failed to load decisions'', decisions_loading := False \<rparr>"

definition loadDecisions ::
  "decisions_response http \<Rightarrow> decisions_state \<Rightarrow> request list \<times> decisions_state"
where
  "loadDecisions http st =
     (let st1 = st\<lparr> decisions_loading := True, decisions_error := None \<rparr>;
          call = getDecisions http (limit st1)
      in (fst call, subscribe loadDecisions_next loadDecisions_error (snd call) st1))"

subsection \<open>Config (components/config/config.component.ts)\<close>

record config_state =
  config :: "Config option"
  config_loading :: bool
  config_error :: "string option"
  config_success :: "string option"
  saving :: bool

definition config_init :: config_state where
  "config_init =
     \<lparr> config = None, config_loading = True, config_error = None, config_success = None,
       saving = False \<rparr>"

definition loadConfig_next :: "Config \<Rightarrow> config_state \<Rightarrow> config_state" where
  "loadConfig_next c st = st\<lparr> config := Some c, config_loading := False \<rparr>"

definition loadConfig_error :: "js_error \<Rightarrow> config_state \<Rightarrow> config_state" where
  "loadConfig_error err st =
     st\<lparr> config_error := Some ''Failed to load configuration'', config_loading := False \<rparr>"

definition loadConfig :: "Config http \<Rightarrow> config_state \<Rightarrow> request list \<times> config_state" where
  "loadConfig http st =
     (let st1 = st\<lparr> config_loading := True, config_error := None \<rparr>;
          call = getConfig http
      in (fst call, subscribe loadConfig_next loadConfig_error (snd call) st1))"

text \<open>
  \<^verbatim>\<open>saveConfig\<close>: the timer that clears the success message three seconds later is not
  modelled.
\<close>

definition saveConfig_next :: "update_response \<Rightarrow> config_state \<Rightarrow> config_state" where
  "saveConfig_next response st =
     (if up_success response
      then st\<lparr> config_success := Some ''Configuration updated successfully!'' \<rparr>
      else st)
       \<lparr> saving := False \<rparr>"

definition saveConfig_error :: "js_error \<Rightarrow> config_state \<Rightarrow> config_state" where
  "saveConfig_error err st =
     st\<lparr> config_error := Some ''Failed to update configuration'', saving := False \<rparr>"

text \<open>The object literal \<^verbatim>\<open>updates\<close> of \<^verbatim>\<open>saveConfig\<close>.\<close>

definition saveConfig_updates :: "Config \<Rightarrow> ConfigUpdates" where
  "saveConfig_updates c =
     \<lparr> u_dry_run = Some (dry_run c), u_scale_factor = Some (scale_factor c),
       u_auto_scale_enabled = Some (auto_scale_enabled c),
       u_auto_scale_interval = Some (auto_scale_interval c),
       u_scaling_cooldown = Some (scaling_cooldown c),
       u_namespaces = Some (namespaces c) \<rparr>"

definition saveConfig :: "update_response http \<Rightarrow> config_state \<Rightarrow> request list \<times> config_state" where
  "saveConfig http st =
     (case config st of
        None \<Rightarrow> ([], st)
      | Some c \<Rightarrow>
          (let st1 = st\<lparr> saving := True, config_error := None, config_success := None \<rparr>;
               call = updateConfig http (saveConfig_updates c)
           in (fst call, subscribe saveConfig_next saveConfig_error (snd call) st1)))"

definition resetConfig :: "Config http \<Rightarrow> bool \<Rightarrow> config_state \<Rightarrow> request list \<times> config_state" where
  "resetConfig http confirmed st = (if confirmed then loadConfig http st else ([], st))"

subsection \<open>Dashboard (components/dashboard/dashboard.component.ts)\<close>

record dashboard_state =
  statistics :: "Statistics option"
  autoscaleStatus :: "AutoscaleStatus option"
  dashboard_config :: "Config option"
  dashboard_loading :: bool
  dashboard_error :: "string option"

definition dashboard_init :: dashboard_state where
  "dashboard_init =
     \<lparr> statistics = None, autoscaleStatus = None, dashboard_config = None,
       dashboard_loading = True, dashboard_error = None \<rparr>"

text \<open>The HTTP client at the response types the calls of the dashboard assert.\<close>

record dashboard_http =
  http_statistics :: "statistics_response http"
  http_autoscale_status :: "AutoscaleStatus http"
  http_config :: "Config http"
  http_start :: "start_response http"
  http_stop :: "stop_response http"
  http_scale_all :: "scale_all_response http"

definition loadStatistics_next :: "statistics_response \<Rightarrow> dashboard_state \<Rightarrow> dashboard_state" where
  "loadStatistics_next response st =
     (if sr_success response then st\<lparr> statistics := Some (sr_statistics response) \<rparr> else st)"

definition loadStatistics_error :: "js_error \<Rightarrow> dashboard_state \<Rightarrow> dashboard_state" where
  "loadStatistics_error err st = st\<lparr> dashboard_error := Some ''Failed to load statistics'' \<rparr>"

definition loadAutoscaleStatus_next :: "AutoscaleStatus \<Rightarrow> dashboard_state \<Rightarrow> dashboard_state" where
  "loadAutoscaleStatus_next status st = st\<lparr> autoscaleStatus := Some status \<rparr>"

text \<open>The \<^verbatim>\<open>error\<close> callback of the autoscale status call only logs to the console.\<close>

definition loadAutoscaleStatus_error :: "js_error \<Rightarrow> dashboard_state \<Rightarrow> dashboard_state" where
  "loadAutoscaleStatus_error err st = st"

definition loadDashboardConfig_next :: "Config \<Rightarrow> dashboard_state \<Rightarrow> dashboard_state" where
  "loadDashboardConfig_next c st = st\<lparr> dashboard_config := Some c, dashboard_loading := False \<rparr>"

definition loadDashboardConfig_error :: "js_error \<Rightarrow> dashboard_state \<Rightarrow> dashboard_state" where
  "loadDashboardConfig_error err st =
     st\<lparr> dashboard_error := Some ''Failed to load configuration'', dashboard_loading := False \<rparr>"

text \<open>
  \<^verbatim>\<open>loadDashboard\<close> subscribes to three calls in a row; their notifications reach the
  component in any order. \<open>arrival\<close> lists the calls in the order their notifications
  arrive, each at most once; a call that is not in the list has not completed.
\<close>

datatype dashboard_call = StatisticsCall | AutoscaleStatusCall | ConfigCall

fun dashboard_deliver ::
  "js_error + statistics_response \<Rightarrow> js_error + AutoscaleStatus \<Rightarrow> js_error + Config \<Rightarrow>
   dashboard_call \<Rightarrow> dashboard_state \<Rightarrow> dashboard_state"
where
  "dashboard_deliver n1 n2 n3 StatisticsCall =
     subscribe loadStatistics_next loadStatistics_error n1"
| "dashboard_deliver n1 n2 n3 AutoscaleStatusCall =
     subscribe loadAutoscaleStatus_next loadAutoscaleStatus_error n2"
| "dashboard_deliver n1 n2 n3 ConfigCall =
     subscribe loadDashboardConfig_next loadDashboardConfig_error n3"

definition loadDashboard ::
  "dashboard_http \<Rightarrow> dashboard_call list \<Rightarrow> dashboard_state \<Rightarrow> request list \<times> dashboard_state"
where
  "loadDashboard h arrival st =
     (let st1 = st\<lparr> dashboard_loading := True, dashboard_error := None \<rparr>;
          c1 = getStatistics (http_statistics h);
          c2 = getAutoscaleStatus (http_autoscale_status h);
          c3 = getConfig (http_config h)
      in (fst c1 @ fst c2 @ fst c3,
          fold (dashboard_deliver (snd c1) (snd c2) (snd c3)) arrival st1))"

text \<open>One tick of the ten-second refresh of \<^verbatim>\<open>ngOnInit\<close>; its \<^verbatim>\<open>error\<close> callback only logs.\<close>

definition refresh_error :: "js_error \<Rightarrow> dashboard_state \<Rightarrow> dashboard_state" where
  "refresh_error err st = st"

definition refresh_tick :: "dashboard_http \<Rightarrow> dashboard_state \<Rightarrow> request list \<times> dashboard_state" where
  "refresh_tick h st =
     (let call = getStatistics (http_statistics h)
      in (fst call, subscribe loadStatistics_next refresh_error (snd call) st))"

text \<open>
  \<^verbatim>\<open>toggleAutoscale\<close> and \<^verbatim>\<open>scaleAllNow\<close> reload the dashboard when the response says
  \<^verbatim>\<open>success\<close>; \<open>arrival\<close> is the arrival order of that reload.
\<close>

definition toggleAutoscale ::
  "dashboard_http \<Rightarrow> dashboard_call list \<Rightarrow> dashboard_state \<Rightarrow> request list \<times> dashboard_state"
where
  "toggleAutoscale h arrival st =
     (case autoscaleStatus st of
        None \<Rightarrow> ([], st)
      | Some status \<Rightarrow>
          (let call =
                 (if as_enabled status
                  then map_prod id (map_sum id stop_success) (stopAutoscale (http_stop h))
                  else map_prod id (map_sum id start_success) (startAutoscale (http_start h)))
           in case snd call of
                Inr success \<Rightarrow>
                  if success
                  then (let reload = loadDashboard h arrival st in (fst call @ fst reload, snd reload))
                  else (fst call, st)
              | Inl err \<Rightarrow>
                  (fst call, st\<lparr> dashboard_error := Some ''Failed to toggle autoscale'' \<rparr>)))"

definition scaleAllNow ::
  "dashboard_http \<Rightarrow> dashboard_call list \<Rightarrow> dashboard_state \<Rightarrow> request list \<times> dashboard_state"
where
  "scaleAllNow h arrival st =
     (let call = scaleAllPods (http_scale_all h)
      in case snd call of
           Inr response \<Rightarrow>
             if sa_success response
             then (let reload = loadDashboard h arrival st in (fst call @ fst reload, snd reload))
             else (fst call, st)
         | Inl err \<Rightarrow> (fst call, st\<lparr> dashboard_error := Some ''Failed to scale pods'' \<rparr>))"

section \<open>Sample values\<close>

definition sample_config :: Config where
  "sample_config =
     \<lparr> model_path = ''models/dqn.pt'', state_dim = 8, action_dim = 9, history_window = 5,
       min_cpu = 0.1, max_cpu = 4, min_memory = 64, max_memory = 4096, scale_factor = 0.2,
       dry_run = True, in_cluster = False, namespaces = [''default''],
       auto_scale_enabled = False, auto_scale_interval = 60, scaling_cooldown = 5 \<rparr>"

definition sample_counts :: action_counts where
  "sample_counts = \<lparr> n_DECREASE = 1, n_INCREASE = 2, n_MAINTAIN = 3 \<rparr>"

definition sample_statistics :: Statistics where
  "sample_statistics =
     \<lparr> s_action_distribution = \<lparr> cpu_actions = sample_counts, memory_actions = sample_counts \<rparr>,
       s_model_performance =
         \<lparr> average_cpu_confidence = 0.5, average_memory_confidence = 0.5, model_type = ''dqn'' \<rparr>,
       s_overview =
         \<lparr> applied_scalings = 3, scaling_rate = 0.5, total_decisions = 6,
           total_pods_monitored = 2 \<rparr>,
       s_resource_utilization = \<lparr> average_cpu_usage = 0.3, average_memory_usage_mb = 200 \<rparr>,
       s_system_status =
         \<lparr> cooldown_period_minutes = 5, dry_run_mode = True, kubernetes_available = True,
           ss_scale_factor = 0.2 \<rparr>,
       s_timestamp = ''2025-01-01T00:00:00'' \<rparr>"

definition sample_status :: AutoscaleStatus where
  "sample_status =
     \<lparr> as_enabled = False, as_running = False, interval_seconds = 60, thread_alive = False \<rparr>"

definition sample_pod :: Pod where
  "sample_pod =
     \<lparr> p_name = ''web-0'', p_namespace = ''default'', p_uid = ''u-1'',
       p_labels = [(''app'', ''web'')], p_owner = None \<rparr>"

text \<open>What the client notifies for a backend that is down, and for a 500 status.\<close>

definition network_failure :: HttpErrorResponse where
  "network_failure =
     \<lparr> he_error = OtherError, he_status = 0,
       he_message = ''Http failure response for http://localhost:5404/pods: 0 Unknown Error'' \<rparr>"

definition server_failure :: HttpErrorResponse where
  "server_failure =
     \<lparr> he_error = OtherError, he_status = 500, he_message = ''Internal Server Error'' \<rparr>"

definition client_failure :: HttpErrorResponse where
  "client_failure =
     \<lparr> he_error = ErrorEvent ''connection reset'', he_status = 0, he_message = ''failed'' \<rparr>"

text \<open>A backend where the autoscale status call fails and the other calls of the dashboard succeed.\<close>

definition status_down :: dashboard_http where
  "status_down =
     \<lparr> http_statistics = (\<lambda>r. Inr \<lparr> sr_success = True, sr_statistics = sample_statistics \<rparr>),
       http_autoscale_status = (\<lambda>r. Inl server_failure),
       http_config = (\<lambda>r. Inr sample_config),
       http_start = (\<lambda>r. Inl server_failure),
       http_stop = (\<lambda>r. Inl server_failure),
       http_scale_all = (\<lambda>r. Inl server_failure) \<rparr>"

text \<open>Responses that say \<^verbatim>\<open>success: false\<close>.\<close>

definition refused_pods :: pods_response where
  "refused_pods = \<lparr> pods_success = False, pods_count = 0, pods_pods = [] \<rparr>"

definition refused_decisions :: decisions_response where
  "refused_decisions = \<lparr> dr_success = False, dr_count = 0, dr_decisions = [] \<rparr>"

definition refused_statistics :: statistics_response where
  "refused_statistics = \<lparr> sr_success = False, sr_statistics = sample_statistics \<rparr>"

definition refused_scale :: scale_pod_response where
  "refused_scale = \<lparr> sp_success = False, sp_result = bare_decision \<rparr>"

definition refused_update :: update_response where
  "refused_update = \<lparr> up_success = False \<rparr>"

text \<open>A backend that answers the statistics call with \<^verbatim>\<open>success: false\<close>.\<close>

definition statistics_refused :: dashboard_http where
  "statistics_refused =
     \<lparr> http_statistics = (\<lambda>r. Inr refused_statistics),
       http_autoscale_status = (\<lambda>r. Inr sample_status),
       http_config = (\<lambda>r. Inr sample_config),
       http_start = (\<lambda>r. Inl server_failure),
       http_stop = (\<lambda>r. Inl server_failure),
       http_scale_all = (\<lambda>r. Inl server_failure) \<rparr>"

definition parse_failure :: HttpErrorResponse where
  "parse_failure =
     \<lparr> he_error = OtherError, he_status = 200,
       he_message = ''Http failure during parsing for http://localhost:5404/pods'' \<rparr>"

text \<open>A decision of the simple shape whose proposed CPU is zero; its confidence is 0.9.\<close>

definition legacy_decision :: ScalingDecision where
  "legacy_decision =
     bare_decision\<lparr> action := Some DECREASE, confidence := Some (ConfNumber (Double 8106479329266893 (- 53))),
       current_resources := Some \<lparr> cpu_cores = 2, memory_mb = 512 \<rparr>,
       proposed_resources := Some \<lparr> cpu_cores = 0, memory_mb = 256 \<rparr> \<rparr>"

text \<open>
  A decision of the enhanced shape whose CPU is left as it is; its confidences are 0.5
  and 1.
\<close>

definition enhanced_decision :: ScalingDecision where
  "enhanced_decision =
     bare_decision\<lparr> confidence := Some (ConfObject (Some (Double 1 (- 1))) (Some (Double 1 0))),
       can_scale := Some True,
       cpu_action := Some MAINTAIN, memory_action := Some INCREASE,
       current_metrics := Some
         \<lparr> cpu_limit = 1, cpu_usage = 0.5, memory_limit_mb = 256, memory_usage_mb = 200 \<rparr>,
       resource_changes := Some
         \<lparr> rc_cpu = Some
             \<lparr> rc_action = ''MAINTAIN'', change_percent = Some 0, rc_current = 1,
               rc_new = 1 \<rparr>,
           rc_memory = Some
             \<lparr> rc_action = ''INCREASE'', change_percent = Some 20, rc_current = 256,
               rc_new = 307 \<rparr> \<rparr> \<rparr>"




definition signed_in :: auth_state where
  "signed_in = snd (login ''admin'' ''admin'' (auth_init Map.empty))"

text \<open>A backend where every call of the dashboard fails.\<close>

definition all_down :: dashboard_http where
  "all_down =
     \<lparr> http_statistics = (\<lambda>r. Inl server_failure),
       http_autoscale_status = (\<lambda>r. Inl server_failure),
       http_config = (\<lambda>r. Inl server_failure),
       http_start = (\<lambda>r. Inl server_failure),
       http_stop = (\<lambda>r. Inl server_failure),
       http_scale_all = (\<lambda>r. Inl server_failure) \<rparr>"

text \<open>A backend that answers every call that carries a flag with \<^verbatim>\<open>success: false\<close>.\<close>

definition all_refused :: dashboard_http where
  "all_refused =
     \<lparr> http_statistics = (\<lambda>r. Inr refused_statistics),
       http_autoscale_status = (\<lambda>r. Inr sample_status),
       http_config = (\<lambda>r. Inr sample_config),
       http_start = (\<lambda>r. Inr \<lparr> start_success = False, start_message = ''no'', start_interval = 60 \<rparr>),
       http_stop = (\<lambda>r. Inr \<lparr> stop_success = False, stop_message = ''no'' \<rparr>),
       http_scale_all = (\<lambda>r. Inr
         \<lparr> sa_success = False, sa_processed = 0, sa_results = [],
           sa_statistics = sample_statistics, sa_timestamp = ''2025-01-01T00:00:00'' \<rparr>) \<rparr>"

text \<open>The message \<^verbatim>\<open>handleError\<close> builds for \<open>server_failure\<close>.\<close>

definition server_failure_text :: string where
  "server_failure_text = ''Error Code: 500'' @ [CHR 0x0A] @ ''Message: Internal Server Error''"

text \<open>States of the views that hold data of an earlier load.\<close>

definition loaded_pods :: pods_state where
  "loaded_pods =
     \<lparr> pods = [sample_pod], pods_loading = False, pods_error = None, scalingPod = None \<rparr>"

definition loaded_decisions :: decisions_state where
  "loaded_decisions =
     \<lparr> decisions = [legacy_decision], decisions_loading = False, decisions_error = None,
       limit = 25 \<rparr>"

definition loaded_config :: config_state where
  "loaded_config =
     \<lparr> config = Some sample_config, config_loading = False, config_error = None,
       config_success = None, saving = False \<rparr>"

definition loaded_dashboard :: dashboard_state where
  "loaded_dashboard =
     \<lparr> statistics = Some sample_statistics, autoscaleStatus = Some sample_status,
       dashboard_config = Some sample_config, dashboard_loading = False,
       dashboard_error = None \<rparr>"

text \<open>A backend that answers the list call for 25 decisions with two decisions.\<close>

definition two_decisions :: decisions_response where
  "two_decisions =
     \<lparr> dr_success = True, dr_count = 2, dr_decisions = [legacy_decision, enhanced_decision] \<rparr>"

definition decisions_backend :: "decisions_response http" where
  "decisions_backend r =
     (if req_method r = GET \<and> req_url r = ''http://localhost:5404/decisions?limit=25''
      then Inr two_decisions else Inl server_failure)"

section \<open>The error policy of the gateway client, as a predicate\<close>

text \<open>
  An outcome of an operation follows the policy for the client \<open>http\<close> when the operation
  issued exactly one request and, where the client notified an error for that request, the
  outcome is an \<open>Error\<close> with a non-empty message, and otherwise the body the client
  delivered.
\<close>

definition error_policy :: "'b http \<Rightarrow> request list \<times> (js_error + 'b) \<Rightarrow> bool" where
  "error_policy http outcome =
     (case fst outcome of
        [r] \<Rightarrow>
          (case http r of
             Inl e \<Rightarrow> (case snd outcome of Inl (Error m) \<Rightarrow> m \<noteq> [] | Inr v \<Rightarrow> False)
           | Inr v \<Rightarrow> snd outcome = Inr v)
      | _ \<Rightarrow> False)"

section \<open>Properties of the decision normalizer\<close>

text \<open>
  C1. If \<^verbatim>\<open>action\<close> is present, the overall action is \<^verbatim>\<open>action\<close>. Otherwise, if both
  \<^verbatim>\<open>cpu_action\<close> and \<^verbatim>\<open>memory_action\<close> are present, the overall action is INCREASE when
  either is INCREASE, else DECREASE when either is DECREASE, else MAINTAIN.
\<close>

theorem overall_action_rule:
  "(action d = Some a \<longrightarrow> getOverallAction d = a) \<and>
   (action d = None \<and> cpu_action d = Some c \<and> memory_action d = Some m \<longrightarrow>
      getOverallAction d =
        (if c = INCREASE \<or> m = INCREASE then INCREASE
         else if c = DECREASE \<or> m = DECREASE then DECREASE
         else MAINTAIN))"
  by (simp add: getOverallAction_def)

theorem overall_action_rule_witness:
  "getOverallAction (bare_decision\<lparr> action := Some DECREASE, cpu_action := Some INCREASE,
      memory_action := Some INCREASE \<rparr>) = DECREASE \<and>
   getOverallAction (bare_decision\<lparr> cpu_action := Some DECREASE, memory_action := Some INCREASE \<rparr>)
     = INCREASE \<and>
   getOverallAction (bare_decision\<lparr> cpu_action := Some MAINTAIN, memory_action := Some DECREASE \<rparr>)
     = DECREASE \<and>
   getOverallAction (bare_decision\<lparr> cpu_action := Some MAINTAIN, memory_action := Some MAINTAIN \<rparr>)
     = MAINTAIN"
  using
    overall_action_rule [of "bare_decision\<lparr> action := Some DECREASE, cpu_action := Some INCREASE,
      memory_action := Some INCREASE \<rparr>" DECREASE INCREASE INCREASE]
    overall_action_rule [of "bare_decision\<lparr> cpu_action := Some DECREASE,
      memory_action := Some INCREASE \<rparr>" MAINTAIN DECREASE INCREASE]
    overall_action_rule [of "bare_decision\<lparr> cpu_action := Some MAINTAIN,
      memory_action := Some DECREASE \<rparr>" MAINTAIN MAINTAIN DECREASE]
    overall_action_rule [of "bare_decision\<lparr> cpu_action := Some MAINTAIN,
      memory_action := Some MAINTAIN \<rparr>" MAINTAIN MAINTAIN MAINTAIN]
  by (simp add: bare_decision_def)

subsection \<open>Doubles\<close>













subsection \<open>Overall confidence\<close>









subsection \<open>Resources and change percent\<close>

text \<open>
  C3, as the claim states it, fails: a proposed CPU value that is present and zero is not
  preferred. For the decision of the simple shape with 2 current cores and 0 proposed
  cores the normalized proposed value is 2.
\<close>

theorem proposed_cpu_zero_counterexample:
  "proposed_resources legacy_decision = Some \<lparr> cpu_cores = 0, memory_mb = 256 \<rparr> \<and>
   getProposedCpuCores legacy_decision = 2 \<and>
   getProposedCpuCores legacy_decision \<noteq> cpu_cores \<lparr> cpu_cores = 0, memory_mb = 256 \<rparr>"
  by (simp add: legacy_decision_def bare_decision_def getProposedCpuCores_def
      getCurrentCpuCores_def)

lemma js_or_unavailable: "\<not> available v \<Longrightarrow> js_or v y = y"
  by (cases v) simp_all

lemma current_cpu_chain:
  "(map_option cpu_cores (current_resources d) = Some x \<and> x \<noteq> 0 \<longrightarrow> getCurrentCpuCores d = x) \<and>
   (\<not> available (map_option cpu_cores (current_resources d)) \<and>
      map_option cpu_usage (current_metrics d) = Some x \<and> x \<noteq> 0 \<longrightarrow> getCurrentCpuCores d = x) \<and>
   (\<not> available (map_option cpu_cores (current_resources d)) \<and>
      \<not> available (map_option cpu_usage (current_metrics d)) \<longrightarrow> getCurrentCpuCores d = 0)"
  by (auto simp: getCurrentCpuCores_def js_or_unavailable)

lemma proposed_cpu_chain:
  "(map_option cpu_cores (proposed_resources d) = Some x \<and> x \<noteq> 0 \<longrightarrow> getProposedCpuCores d = x) \<and>
   (\<not> available (map_option cpu_cores (proposed_resources d)) \<and>
      map_option rc_new (Option.bind (resource_changes d) rc_cpu) = Some x \<and> x \<noteq> 0 \<longrightarrow>
      getProposedCpuCores d = x) \<and>
   (\<not> available (map_option cpu_cores (proposed_resources d)) \<and>
      \<not> available (map_option rc_new (Option.bind (resource_changes d) rc_cpu)) \<longrightarrow>
      getProposedCpuCores d = getCurrentCpuCores d)"
  by (auto simp: getProposedCpuCores_def js_or_unavailable)

lemma current_memory_chain:
  "(map_option memory_mb (current_resources d) = Some x \<and> x \<noteq> 0 \<longrightarrow> getCurrentMemoryMb d = x) \<and>
   (\<not> available (map_option memory_mb (current_resources d)) \<and>
      map_option memory_usage_mb (current_metrics d) = Some x \<and> x \<noteq> 0 \<longrightarrow>
      getCurrentMemoryMb d = x) \<and>
   (\<not> available (map_option memory_mb (current_resources d)) \<and>
      \<not> available (map_option memory_usage_mb (current_metrics d)) \<longrightarrow> getCurrentMemoryMb d = 0)"
  by (auto simp: getCurrentMemoryMb_def js_or_unavailable)

lemma proposed_memory_chain:
  "(map_option memory_mb (proposed_resources d) = Some x \<and> x \<noteq> 0 \<longrightarrow> getProposedMemoryMb d = x) \<and>
   (\<not> available (map_option memory_mb (proposed_resources d)) \<and>
      map_option rc_new (Option.bind (resource_changes d) rc_memory) = Some x \<and> x \<noteq> 0 \<longrightarrow>
      getProposedMemoryMb d = x) \<and>
   (\<not> available (map_option memory_mb (proposed_resources d)) \<and>
      \<not> available (map_option rc_new (Option.bind (resource_changes d) rc_memory)) \<longrightarrow>
      getProposedMemoryMb d = getCurrentMemoryMb d)"
  by (auto simp: getProposedMemoryMb_def js_or_unavailable)

text \<open>
  C3, amended. Call a value available when it is present and not zero. The normalized
  current CPU cores is \<^verbatim>\<open>current_resources.cpu_cores\<close> when that is available, else
  \<^verbatim>\<open>current_metrics.cpu_usage\<close> when that is available, else 0. The normalized proposed CPU
  cores is \<^verbatim>\<open>proposed_resources.cpu_cores\<close> when that is available, else
  \<^verbatim>\<open>resource_changes.cpu.new\<close> when that is available, else the normalized current value.
  The same chain holds for memory with \<^verbatim>\<open>memory_mb\<close>, \<^verbatim>\<open>memory_usage_mb\<close> and
  \<^verbatim>\<open>resource_changes.memory.new\<close>.
\<close>

theorem resource_fallback_chain:
  "((map_option cpu_cores (current_resources d) = Some x \<and> x \<noteq> 0 \<longrightarrow> getCurrentCpuCores d = x) \<and>
    (\<not> available (map_option cpu_cores (current_resources d)) \<and>
       map_option cpu_usage (current_metrics d) = Some x \<and> x \<noteq> 0 \<longrightarrow> getCurrentCpuCores d = x) \<and>
    (\<not> available (map_option cpu_cores (current_resources d)) \<and>
       \<not> available (map_option cpu_usage (current_metrics d)) \<longrightarrow> getCurrentCpuCores d = 0)) \<and>
   ((map_option cpu_cores (proposed_resources d) = Some x \<and> x \<noteq> 0 \<longrightarrow>
       getProposedCpuCores d = x) \<and>
    (\<not> available (map_option cpu_cores (proposed_resources d)) \<and>
       map_option rc_new (Option.bind (resource_changes d) rc_cpu) = Some x \<and> x \<noteq> 0 \<longrightarrow>
       getProposedCpuCores d = x) \<and>
    (\<not> available (map_option cpu_cores (proposed_resources d)) \<and>
       \<not> available (map_option rc_new (Option.bind (resource_changes d) rc_cpu)) \<longrightarrow>
       getProposedCpuCores d = getCurrentCpuCores d)) \<and>
   ((map_option memory_mb (current_resources d) = Some x \<and> x \<noteq> 0 \<longrightarrow>
       getCurrentMemoryMb d = x) \<and>
    (\<not> available (map_option memory_mb (current_resources d)) \<and>
       map_option memory_usage_mb (current_metrics d) = Some x \<and> x \<noteq> 0 \<longrightarrow>
       getCurrentMemoryMb d = x) \<and>
    (\<not> available (map_option memory_mb (current_resources d)) \<and>
       \<not> available (map_option memory_usage_mb (current_metrics d)) \<longrightarrow>
       getCurrentMemoryMb d = 0)) \<and>
   ((map_option memory_mb (proposed_resources d) = Some x \<and> x \<noteq> 0 \<longrightarrow>
       getProposedMemoryMb d = x) \<and>
    (\<not> available (map_option memory_mb (proposed_resources d)) \<and>
       map_option rc_new (Option.bind (resource_changes d) rc_memory) = Some x \<and> x \<noteq> 0 \<longrightarrow>
       getProposedMemoryMb d = x) \<and>
    (\<not> available (map_option memory_mb (proposed_resources d)) \<and>
       \<not> available (map_option rc_new (Option.bind (resource_changes d) rc_memory)) \<longrightarrow>
       getProposedMemoryMb d = getCurrentMemoryMb d))"
  by (rule conjI [OF current_cpu_chain conjI [OF proposed_cpu_chain
        conjI [OF current_memory_chain proposed_memory_chain]]])

theorem resource_fallback_chain_witness:
  "getCurrentCpuCores legacy_decision = 2 \<and>
   getProposedCpuCores legacy_decision = 2 \<and>
   getCurrentMemoryMb legacy_decision = 512 \<and>
   getProposedMemoryMb legacy_decision = 256 \<and>
   getCurrentCpuCores enhanced_decision = 0.5 \<and>
   getProposedCpuCores enhanced_decision = 1 \<and>
   getCurrentMemoryMb enhanced_decision = 200 \<and>
   getProposedMemoryMb enhanced_decision = 307 \<and>
   getCurrentCpuCores bare_decision = 0 \<and>
   getProposedMemoryMb bare_decision = 0"
  using
    resource_fallback_chain [of legacy_decision 2]
    resource_fallback_chain [of legacy_decision 512]
    resource_fallback_chain [of legacy_decision 256]
    resource_fallback_chain [of enhanced_decision "0.5"]
    resource_fallback_chain [of enhanced_decision 1]
    resource_fallback_chain [of enhanced_decision 200]
    resource_fallback_chain [of enhanced_decision 307]
    resource_fallback_chain [of bare_decision 0]
  by (simp add: legacy_decision_def enhanced_decision_def bare_decision_def)








section \<open>Properties of the gateway client\<close>

lemma handleError_shape:
  "\<exists>m. (handleError e :: js_error + 'b) = Inl (Error m) \<and> m \<noteq> []"
  by (cases "he_error e") (simp_all add: handleError_def throwError_def)

lemma catch_get:
  "catchError handleError (http_get http url) =
     ([\<lparr> req_method = GET, req_url = url, req_body = None, req_headers = [] \<rparr>],
      case http \<lparr> req_method = GET, req_url = url, req_body = None, req_headers = [] \<rparr> of
        Inl e \<Rightarrow> handleError e | Inr v \<Rightarrow> Inr v)"
  by (simp add: catchError_def http_get_def Let_def)

lemma catch_post:
  "catchError handleError (http_post http url b hs) =
     ([\<lparr> req_method = POST, req_url = url, req_body = Some b, req_headers = hs \<rparr>],
      case http \<lparr> req_method = POST, req_url = url, req_body = Some b, req_headers = hs \<rparr> of
        Inl e \<Rightarrow> handleError e | Inr v \<Rightarrow> Inr v)"
  by (simp add: catchError_def http_post_def Let_def)

lemma handleError_server_failure:
  "handleError server_failure = Inl (Error server_failure_text)"
  by (simp add: handleError_def throwError_def server_failure_def server_failure_text_def
      show_nat.simps)

lemma handleError_network_failure:
  "handleError network_failure =
     Inl (Error (''Error Code: 0'' @ [CHR 0x0A] @ ''Message: '' @ he_message network_failure))"
  by (simp add: handleError_def throwError_def network_failure_def show_nat.simps)

lemma handleError_parse_failure:
  "handleError parse_failure =
     Inl (Error (''Error Code: 200'' @ [CHR 0x0A] @ ''Message: '' @ he_message parse_failure))"
  by (simp add: handleError_def throwError_def parse_failure_def show_nat.simps)

lemma handleError_client_failure:
  "handleError client_failure = Inl (Error ''Error: connection reset'')"
  by (simp add: handleError_def throwError_def client_failure_def)

lemma policy_get: "error_policy http (catchError handleError (http_get http url))"
proof (cases "http \<lparr> req_method = GET, req_url = url, req_body = None, req_headers = [] \<rparr>")
  case (Inl e)
  obtain m where "(handleError e :: js_error + 'a) = Inl (Error m)" "m \<noteq> []"
    using handleError_shape by blast
  with Inl show ?thesis by (simp add: error_policy_def catch_get)
next
  case (Inr v)
  then show ?thesis by (simp add: error_policy_def catch_get)
qed

lemma policy_post: "error_policy http (catchError handleError (http_post http url b hs))"
proof (cases "http \<lparr> req_method = POST, req_url = url, req_body = Some b, req_headers = hs \<rparr>")
  case (Inl e)
  obtain m where "(handleError e :: js_error + 'a) = Inl (Error m)" "m \<noteq> []"
    using handleError_shape by blast
  with Inl show ?thesis by (simp add: error_policy_def catch_post)
next
  case (Inr v)
  then show ?thesis by (simp add: error_policy_def catch_post)
qed

text \<open>
  C5. Every operation of the gateway client issues exactly one request, whatever the client
  notifies for it, so nothing is retried; and whenever the client notifies an error for
  that request (a network failure, an error status, a body that does not parse), the
  operation ends in the one error shape, an \<open>Error\<close> that carries a non-empty message.
\<close>

theorem gateway_error_policy:
  "error_policy h1 (getHealth h1) \<and>
   error_policy h2 (getConfig h2) \<and>
   error_policy h3 (updateConfig h3 updates) \<and>
   error_policy h4 (getPods h4) \<and>
   error_policy h5 (getPodInfo h5 ns podName) \<and>
   error_policy h6 (scalePod h6 ns podName) \<and>
   error_policy h7 (scaleAllPods h7) \<and>
   error_policy h8 (getDecisions h8 n) \<and>
   error_policy h9 (getStatistics h9) \<and>
   error_policy h10 (startAutoscale h10) \<and>
   error_policy h11 (stopAutoscale h11) \<and>
   error_policy h12 (getAutoscaleStatus h12) \<and>
   error_policy h13 (getModelInfo h13)"
  unfolding getHealth_def getConfig_def updateConfig_def getPods_def getPodInfo_def scalePod_def
    scaleAllPods_def getDecisions_def getStatistics_def startAutoscale_def stopAutoscale_def
    getAutoscaleStatus_def getModelInfo_def
  by (intro conjI policy_get policy_post)

theorem gateway_error_policy_witness:
  "getPods (\<lambda>r. Inl server_failure) =
     ([\<lparr> req_method = GET, req_url = ''http://localhost:5404/pods'', req_body = None,
         req_headers = [] \<rparr>],
      Inl (Error server_failure_text)) \<and>
   snd (scalePod (\<lambda>r. Inl network_failure) ''default'' ''web-0'') =
     Inl (Error (''Error Code: 0'' @ [CHR 0x0A] @ ''Message: '' @ he_message network_failure)) \<and>
   snd (getStatistics (\<lambda>r. Inl parse_failure)) =
     Inl (Error (''Error Code: 200'' @ [CHR 0x0A] @ ''Message: '' @ he_message parse_failure)) \<and>
   snd (getConfig (\<lambda>r. Inl client_failure)) = Inl (Error ''Error: connection reset'') \<and>
   getConfig (\<lambda>r. Inr sample_config) =
     ([\<lparr> req_method = GET, req_url = ''http://localhost:5404/config'', req_body = None,
         req_headers = [] \<rparr>],
      Inr sample_config)"
  using gateway_error_policy [of "\<lambda>r. Inl server_failure" "\<lambda>r. Inl client_failure"
      "\<lambda>r. Inl server_failure" "saveConfig_updates sample_config" "\<lambda>r. Inl server_failure"
      "\<lambda>r. Inl server_failure" "''default''" "''web-0''" "\<lambda>r. Inl network_failure"
      "\<lambda>r. Inl server_failure" "\<lambda>r. Inl server_failure" 50 "\<lambda>r. Inl parse_failure"
      "\<lambda>r. Inl server_failure" "\<lambda>r. Inl server_failure" "\<lambda>r. Inl server_failure"
      "\<lambda>r. Inl server_failure"]
  by (simp add: getPods_def scalePod_def getStatistics_def getConfig_def catch_get catch_post
      handleError_server_failure handleError_network_failure handleError_parse_failure
      handleError_client_failure apiUrl_def)

section \<open>Properties of the session guard\<close>

text \<open>
  C6. A login succeeds exactly for the pair admin/admin. A successful login stores the flag
  and the username, so that the stored state reads as authenticated when the service
  starts again; any other pair leaves the whole state of the service as it was.
\<close>

theorem login_rule:
  "(fst (login u p st) \<longleftrightarrow> u = ''admin'' \<and> p = ''admin'') \<and>
   (fst (login u p st) \<longrightarrow>
      localStorage (snd (login u p st)) ''isAuthenticated'' = Some ''true'' \<and>
      localStorage (snd (login u p st)) ''username'' = Some u \<and>
      getStoredAuthState (localStorage (snd (login u p st))) \<and>
      isAuthenticated (snd (login u p st))) \<and>
   (\<not> fst (login u p st) \<longrightarrow> snd (login u p st) = st)"
  by (simp add: login_def Let_def subject_next_def setItem_def getStoredAuthState_def
      isAuthenticated_def)

theorem login_rule_witness:
  "fst (login ''admin'' ''admin'' (auth_init Map.empty)) \<and>
   localStorage (snd (login ''admin'' ''admin'' (auth_init Map.empty))) ''isAuthenticated''
     = Some ''true'' \<and>
   subject_value (auth_init (localStorage (snd (login ''admin'' ''admin'' (auth_init Map.empty))))) \<and>
   \<not> fst (login ''admin'' ''secret'' (auth_init Map.empty)) \<and>
   snd (login ''admin'' ''secret'' (auth_init Map.empty)) = auth_init Map.empty"
  using login_rule [of "''admin''" "''admin''" "auth_init Map.empty"]
    login_rule [of "''admin''" "''secret''" "auth_init Map.empty"]
  by (simp add: auth_init_def)

lemma login_subject: "subject_value (snd (login u p st)) \<longleftrightarrow> subject_value st \<or> (u = ''admin'' \<and> p = ''admin'')"
  by (auto simp: login_def Let_def subject_next_def setItem_def)

lemma login_stored:
  "getStoredAuthState (localStorage (snd (login u p st))) \<longleftrightarrow>
     getStoredAuthState (localStorage st) \<or> (u = ''admin'' \<and> p = ''admin'')"
  by (auto simp: login_def Let_def subject_next_def setItem_def getStoredAuthState_def)

lemma failed_login_noop: "\<not> (u = ''admin'' \<and> p = ''admin'') \<Longrightarrow> auth_step (Login u p) st = st"
  by (auto simp: login_def Let_def)

lemma becomes_true:
  "\<not> subject_value st \<Longrightarrow> subject_value (auth_step c st) \<Longrightarrow> c = Login ''admin'' ''admin''"
  by (cases c) (auto simp: login_subject logout_def subject_next_def)

lemma becomes_false:
  "subject_value st \<Longrightarrow> \<not> subject_value (auth_step c st) \<Longrightarrow> c = Logout"
  by (cases c) (auto simp: login_subject)

lemma logout_stored: "\<not> getStoredAuthState (localStorage (logout st))"
  by (simp add: logout_def subject_next_def removeItem_def getStoredAuthState_def)

lemma stored_becomes_true:
  assumes "\<not> getStoredAuthState (localStorage st)"
    and "getStoredAuthState (localStorage (auth_step c st))"
  shows "c = Login ''admin'' ''admin''"
proof (cases c)
  case (Login u p)
  with assms login_stored [of u p st] show ?thesis by simp
next
  case Logout
  with assms logout_stored [of st] show ?thesis by simp
qed (use assms in simp_all)

lemma stored_becomes_false:
  "getStoredAuthState (localStorage st) \<Longrightarrow> \<not> getStoredAuthState (localStorage (auth_step c st))
   \<Longrightarrow> c = Logout"
  by (cases c) (auto simp: login_stored)

text \<open>
  C9. The authenticated flag, in memory and in storage, turns true only in a login with
  admin/admin and turns false only in a logout. A login with any other pair emits nothing
  and writes nothing, so a session that was authenticated stays authenticated.
\<close>

theorem session_transitions:
  "(\<not> subject_value st \<and> subject_value (auth_step c st) \<longrightarrow> c = Login ''admin'' ''admin'') \<and>
   (subject_value st \<and> \<not> subject_value (auth_step c st) \<longrightarrow> c = Logout) \<and>
   (\<not> getStoredAuthState (localStorage st) \<and> getStoredAuthState (localStorage (auth_step c st))
      \<longrightarrow> c = Login ''admin'' ''admin'') \<and>
   (getStoredAuthState (localStorage st) \<and> \<not> getStoredAuthState (localStorage (auth_step c st))
      \<longrightarrow> c = Logout) \<and>
   (\<not> (u = ''admin'' \<and> p = ''admin'') \<longrightarrow>
      \<not> fst (login u p st) \<and> auth_step (Login u p) st = st \<and>
      emitted (auth_step (Login u p) st) = emitted st \<and>
      localStorage (auth_step (Login u p) st) = localStorage st \<and>
      (subject_value st \<longrightarrow> subject_value (auth_step (Login u p) st)))"
  using becomes_true [of st c] becomes_false [of st c] stored_becomes_true [of st c]
    stored_becomes_false [of st c] failed_login_noop [of u p st]
  by (auto simp: login_def)

theorem session_transitions_witness:
  "subject_value signed_in \<and> getStoredAuthState (localStorage signed_in) \<and>
   \<not> fst (login ''admin'' ''secret'' signed_in) \<and>
   auth_step (Login ''admin'' ''secret'') signed_in = signed_in \<and>
   subject_value (auth_step (Login ''admin'' ''secret'') signed_in) \<and>
   \<not> subject_value (auth_step Logout signed_in) \<and>
   \<not> getStoredAuthState (localStorage (auth_step Logout signed_in)) \<and>
   \<not> subject_value (auth_init Map.empty) \<and>
   subject_value (auth_step (Login ''admin'' ''admin'') (auth_init Map.empty))"
  using session_transitions [of signed_in Logout "''admin''" "''secret''"]
    session_transitions [of "auth_init Map.empty" "Login ''admin'' ''admin''" "''admin''" "''secret''"]
  by (simp add: signed_in_def auth_init_def login_def logout_def subject_next_def setItem_def
      removeItem_def getStoredAuthState_def)

section \<open>Properties of the view controllers\<close>

lemma deliver_statistics_kept:
  "n1 = Inl e \<or> (\<exists>r. n1 = Inr r \<and> \<not> sr_success r) \<Longrightarrow>
   statistics (dashboard_deliver n1 n2 n3 c s) = statistics s"
  by (cases c; cases n2; cases n3)
    (auto simp: subscribe_def loadStatistics_next_def loadStatistics_error_def
      loadAutoscaleStatus_next_def loadAutoscaleStatus_error_def loadDashboardConfig_next_def
      loadDashboardConfig_error_def)

lemma fold_statistics_kept:
  "n1 = Inl e \<or> (\<exists>r. n1 = Inr r \<and> \<not> sr_success r) \<Longrightarrow>
   statistics (fold (dashboard_deliver n1 n2 n3) arrival s) = statistics s"
  by (induction arrival arbitrary: s) (simp_all add: deliver_statistics_kept)

lemma deliver_status_kept:
  "n2 = Inl e \<Longrightarrow> autoscaleStatus (dashboard_deliver n1 n2 n3 c s) = autoscaleStatus s"
  by (cases c; cases n1; cases n3)
    (auto simp: subscribe_def loadStatistics_next_def loadStatistics_error_def
      loadAutoscaleStatus_next_def loadAutoscaleStatus_error_def loadDashboardConfig_next_def
      loadDashboardConfig_error_def)

lemma fold_status_kept:
  "n2 = Inl e \<Longrightarrow> autoscaleStatus (fold (dashboard_deliver n1 n2 n3) arrival s) = autoscaleStatus s"
  by (induction arrival arbitrary: s) (simp_all add: deliver_status_kept)

lemma deliver_config_kept:
  "n3 = Inl e \<Longrightarrow> dashboard_config (dashboard_deliver n1 n2 n3 c s) = dashboard_config s"
  by (cases c; cases n1; cases n2)
    (auto simp: subscribe_def loadStatistics_next_def loadStatistics_error_def
      loadAutoscaleStatus_next_def loadAutoscaleStatus_error_def loadDashboardConfig_next_def
      loadDashboardConfig_error_def)

lemma fold_config_kept:
  "n3 = Inl e \<Longrightarrow> dashboard_config (fold (dashboard_deliver n1 n2 n3) arrival s) = dashboard_config s"
  by (induction arrival arbitrary: s) (simp_all add: deliver_config_kept)

text \<open>No callback clears the error or sets loading again.\<close>

lemma deliver_error_stays:
  "dashboard_error s \<noteq> None \<Longrightarrow> dashboard_error (dashboard_deliver n1 n2 n3 c s) \<noteq> None"
  by (cases c; cases n1; cases n2; cases n3)
    (auto simp: subscribe_def loadStatistics_next_def loadStatistics_error_def
      loadAutoscaleStatus_next_def loadAutoscaleStatus_error_def loadDashboardConfig_next_def
      loadDashboardConfig_error_def)

lemma fold_error_stays:
  "dashboard_error s \<noteq> None \<Longrightarrow> dashboard_error (fold (dashboard_deliver n1 n2 n3) arrival s) \<noteq> None"
proof (induction arrival arbitrary: s)
  case Nil
  then show ?case by simp
next
  case (Cons c cs)
  from Cons.IH [OF deliver_error_stays [OF Cons.prems]] show ?case by simp
qed

lemma deliver_loaded_stays:
  "\<not> dashboard_loading s \<Longrightarrow> \<not> dashboard_loading (dashboard_deliver n1 n2 n3 c s)"
  by (cases c; cases n1; cases n2; cases n3)
    (auto simp: subscribe_def loadStatistics_next_def loadStatistics_error_def
      loadAutoscaleStatus_next_def loadAutoscaleStatus_error_def loadDashboardConfig_next_def
      loadDashboardConfig_error_def)

lemma fold_loaded_stays:
  "\<not> dashboard_loading s \<Longrightarrow> \<not> dashboard_loading (fold (dashboard_deliver n1 n2 n3) arrival s)"
proof (induction arrival arbitrary: s)
  case Nil
  then show ?case by simp
next
  case (Cons c cs)
  from Cons.IH [OF deliver_loaded_stays [OF Cons.prems]] show ?case by simp
qed

lemma fold_config_failed:
  "n3 = Inl e \<Longrightarrow> ConfigCall \<in> set arrival \<Longrightarrow>
   dashboard_error (fold (dashboard_deliver n1 n2 n3) arrival s) \<noteq> None \<and>
   \<not> dashboard_loading (fold (dashboard_deliver n1 n2 n3) arrival s)"
proof (induction arrival arbitrary: s)
  case Nil
  then show ?case by simp
next
  case (Cons c cs)
  show ?case
  proof (cases "c = ConfigCall")
    case True
    with Cons.prems have
      "dashboard_error (dashboard_deliver n1 n2 n3 c s) \<noteq> None"
      "\<not> dashboard_loading (dashboard_deliver n1 n2 n3 c s)"
      by (simp_all add: subscribe_def loadDashboardConfig_error_def)
    then show ?thesis by (simp add: fold_error_stays fold_loaded_stays)
  next
    case False
    with Cons show ?thesis by simp
  qed
qed

lemma fold_config_done:
  "ConfigCall \<in> set arrival \<Longrightarrow>
   \<not> dashboard_loading (fold (dashboard_deliver n1 n2 n3) arrival s)"
proof (induction arrival arbitrary: s)
  case Nil
  then show ?case by simp
next
  case (Cons c cs)
  show ?case
  proof (cases "c = ConfigCall")
    case True
    have "\<not> dashboard_loading (dashboard_deliver n1 n2 n3 c s)"
      unfolding True
      by (cases n3) (simp_all add: subscribe_def loadDashboardConfig_error_def
          loadDashboardConfig_next_def)
    then show ?thesis by (simp add: fold_loaded_stays)
  next
    case False
    with Cons show ?thesis by simp
  qed
qed

lemma fold_statistics_failed:
  "n1 = Inl e \<Longrightarrow> StatisticsCall \<in> set arrival \<Longrightarrow>
   dashboard_error (fold (dashboard_deliver n1 n2 n3) arrival s) \<noteq> None"
proof (induction arrival arbitrary: s)
  case Nil
  then show ?case by simp
next
  case (Cons c cs)
  show ?case
  proof (cases "c = StatisticsCall")
    case True
    with Cons.prems have "dashboard_error (dashboard_deliver n1 n2 n3 c s) \<noteq> None"
      by (simp add: subscribe_def loadStatistics_error_def)
    then show ?thesis by (simp add: fold_error_stays)
  next
    case False
    with Cons show ?thesis by simp
  qed
qed

text \<open>With the statistics and config calls delivering values, no callback writes the error.\<close>

lemma deliver_error_kept:
  "n1 = Inr r \<Longrightarrow> n3 = Inr c3 \<Longrightarrow>
   dashboard_error (dashboard_deliver n1 n2 n3 c s) = dashboard_error s"
  by (cases c; cases n2)
    (auto simp: subscribe_def loadStatistics_next_def
      loadAutoscaleStatus_next_def loadAutoscaleStatus_error_def loadDashboardConfig_next_def)

lemma fold_error_kept:
  "n1 = Inr r \<Longrightarrow> n3 = Inr c3 \<Longrightarrow>
   dashboard_error (fold (dashboard_deliver n1 n2 n3) arrival s) = dashboard_error s"
  by (induction arrival arbitrary: s) (simp_all add: deliver_error_kept)

text \<open>Until the config call completes, loading stays as the start of the load set it.\<close>

lemma deliver_loading_kept:
  "c \<noteq> ConfigCall \<Longrightarrow> dashboard_loading (dashboard_deliver n1 n2 n3 c s) = dashboard_loading s"
  by (cases c; cases n1; cases n2)
    (auto simp: subscribe_def loadStatistics_next_def loadStatistics_error_def
      loadAutoscaleStatus_next_def loadAutoscaleStatus_error_def)

lemma fold_loading_kept:
  "ConfigCall \<notin> set arrival \<Longrightarrow>
   dashboard_loading (fold (dashboard_deliver n1 n2 n3) arrival s) = dashboard_loading s"
proof (induction arrival arbitrary: s)
  case Nil
  then show ?case by simp
next
  case (Cons c cs)
  then have "c \<noteq> ConfigCall" "ConfigCall \<notin> set cs" by auto
  with Cons.IH show ?case by (simp add: deliver_loading_kept)
qed

lemma loadPods_failed:
  "snd (getPods http) = Inl err \<Longrightarrow>
   snd (loadPods http st) = st\<lparr> pods_error := Some ''Failed to load pods'', pods_loading := False \<rparr>"
  by (simp add: loadPods_def Let_def subscribe_def loadPods_error_def)

lemma loadDecisions_failed:
  "snd (getDecisions http (limit st)) = Inl err \<Longrightarrow>
   snd (loadDecisions http st) =
     st\<lparr> decisions_error := Some ''Failed to load decisions'', decisions_loading := False \<rparr>"
  by (simp add: loadDecisions_def Let_def subscribe_def loadDecisions_error_def)

lemma loadConfig_failed:
  "snd (getConfig http) = Inl err \<Longrightarrow>
   snd (loadConfig http st) =
     st\<lparr> config_error := Some ''Failed to load configuration'', config_loading := False \<rparr>"
  by (simp add: loadConfig_def Let_def subscribe_def loadConfig_error_def)

lemma loadDashboard_state:
  "snd (loadDashboard h arrival st) =
     fold (dashboard_deliver (snd (getStatistics (http_statistics h)))
             (snd (getAutoscaleStatus (http_autoscale_status h)))
             (snd (getConfig (http_config h))))
       arrival (st\<lparr> dashboard_loading := True, dashboard_error := None \<rparr>)"
  by (simp add: loadDashboard_def Let_def)

lemma loadDashboard_config_failed:
  assumes "snd (getConfig (http_config h)) = Inl err"
  shows "dashboard_config (snd (loadDashboard h arrival st)) = dashboard_config st"
    and "ConfigCall \<in> set arrival \<Longrightarrow>
         dashboard_error (snd (loadDashboard h arrival st)) \<noteq> None \<and>
         \<not> dashboard_loading (snd (loadDashboard h arrival st))"
  using assms fold_config_failed [OF assms]
  by (simp_all add: loadDashboard_state fold_config_kept)

lemma loadDashboard_statistics_failed:
  assumes "snd (getStatistics (http_statistics h)) = Inl err"
  shows "statistics (snd (loadDashboard h arrival st)) = statistics st"
    and "StatisticsCall \<in> set arrival \<Longrightarrow>
         dashboard_error (snd (loadDashboard h arrival st)) \<noteq> None"
  using assms fold_statistics_failed [OF assms]
  by (simp_all add: loadDashboard_state fold_statistics_kept)

lemma loadDashboard_status_failed:
  assumes "snd (getAutoscaleStatus (http_autoscale_status h)) = Inl err"
  shows "autoscaleStatus (snd (loadDashboard h arrival st)) = autoscaleStatus st"
  using assms by (simp add: loadDashboard_state fold_status_kept)

text \<open>
  C7, as the claim states it, fails for the dashboard: when the autoscale status call of the
  load fails and the two other calls succeed, no error string is stored.
\<close>

theorem status_failure_unreported_counterexample:
  "snd (getAutoscaleStatus (http_autoscale_status status_down)) =
     Inl (Error server_failure_text) \<and>
   dashboard_error (snd (loadDashboard status_down
     [StatisticsCall, AutoscaleStatusCall, ConfigCall] dashboard_init)) = None"
  by (simp add: getAutoscaleStatus_def getStatistics_def getConfig_def catch_get
      handleError_server_failure status_down_def loadDashboard_def Let_def subscribe_def loadStatistics_next_def
      loadAutoscaleStatus_error_def loadDashboardConfig_next_def dashboard_init_def)

text \<open>
  C7, amended. In the pods, decisions and config views a failed load call stores the error
  string of the view, sets loading to false and leaves everything else as it was. In the
  dashboard a failed config call leaves the stored config as it was and, once its
  notification has arrived, an error string is stored and loading is false; a failed
  statistics call leaves the stored statistics as they were and, once its notification has
  arrived, an error string is stored; a failed autoscale status call leaves the stored
  status as it was, and its callback changes nothing.
\<close>

theorem load_failure_rule:
  "(snd (getPods hpods) = Inl err \<longrightarrow>
      snd (loadPods hpods ps) =
        ps\<lparr> pods_error := Some ''Failed to load pods'', pods_loading := False \<rparr>) \<and>
   (snd (getDecisions hdec (limit ds)) = Inl err \<longrightarrow>
      snd (loadDecisions hdec ds) =
        ds\<lparr> decisions_error := Some ''Failed to load decisions'', decisions_loading := False \<rparr>) \<and>
   (snd (getConfig hconf) = Inl err \<longrightarrow>
      snd (loadConfig hconf cs) =
        cs\<lparr> config_error := Some ''Failed to load configuration'', config_loading := False \<rparr>) \<and>
   (snd (getConfig (http_config h)) = Inl err \<longrightarrow>
      dashboard_config (snd (loadDashboard h arrival st)) = dashboard_config st \<and>
      (ConfigCall \<in> set arrival \<longrightarrow>
         dashboard_error (snd (loadDashboard h arrival st)) \<noteq> None \<and>
         \<not> dashboard_loading (snd (loadDashboard h arrival st)))) \<and>
   (snd (getStatistics (http_statistics h)) = Inl err \<longrightarrow>
      statistics (snd (loadDashboard h arrival st)) = statistics st \<and>
      (StatisticsCall \<in> set arrival \<longrightarrow>
         dashboard_error (snd (loadDashboard h arrival st)) \<noteq> None)) \<and>
   (snd (getAutoscaleStatus (http_autoscale_status h)) = Inl err \<longrightarrow>
      autoscaleStatus (snd (loadDashboard h arrival st)) = autoscaleStatus st \<and>
      loadAutoscaleStatus_error err st = st)"
  using loadPods_failed [of hpods err ps] loadDecisions_failed [of hdec ds err]
    loadConfig_failed [of hconf err cs] loadDashboard_config_failed [of h err arrival st]
    loadDashboard_statistics_failed [of h err arrival st]
    loadDashboard_status_failed [of h err arrival st]
  by (simp add: loadAutoscaleStatus_error_def)

lemma get_failed:
  "snd (catchError handleError (http_get (\<lambda>r. Inl server_failure) url)) =
     Inl (Error server_failure_text)"
  by (simp add: catch_get handleError_server_failure)

theorem load_failure_rule_witness:
  "snd (loadPods (\<lambda>r. Inl server_failure) loaded_pods) =
     loaded_pods\<lparr> pods_error := Some ''Failed to load pods'', pods_loading := False \<rparr> \<and>
   snd (loadDecisions (\<lambda>r. Inl server_failure) loaded_decisions) =
     loaded_decisions\<lparr> decisions_error := Some ''Failed to load decisions'',
       decisions_loading := False \<rparr> \<and>
   snd (loadConfig (\<lambda>r. Inl server_failure) loaded_config) =
     loaded_config\<lparr> config_error := Some ''Failed to load configuration'',
       config_loading := False \<rparr> \<and>
   dashboard_config (snd (loadDashboard all_down [StatisticsCall, ConfigCall, AutoscaleStatusCall]
     loaded_dashboard)) = Some sample_config \<and>
   statistics (snd (loadDashboard all_down [StatisticsCall, ConfigCall, AutoscaleStatusCall]
     loaded_dashboard)) = Some sample_statistics \<and>
   autoscaleStatus (snd (loadDashboard all_down [StatisticsCall, ConfigCall, AutoscaleStatusCall]
     loaded_dashboard)) = Some sample_status \<and>
   dashboard_error (snd (loadDashboard all_down [StatisticsCall, ConfigCall, AutoscaleStatusCall]
     loaded_dashboard)) \<noteq> None \<and>
   \<not> dashboard_loading (snd (loadDashboard all_down [StatisticsCall, ConfigCall,
     AutoscaleStatusCall] loaded_dashboard))"
  using load_failure_rule [of "\<lambda>r. Inl server_failure" "Error server_failure_text" loaded_pods
      "\<lambda>r. Inl server_failure" loaded_decisions "\<lambda>r. Inl server_failure" loaded_config
      all_down "[StatisticsCall, ConfigCall, AutoscaleStatusCall]" loaded_dashboard]
  by (simp add: getPods_def getDecisions_def getConfig_def getStatistics_def
      getAutoscaleStatus_def get_failed all_down_def loaded_dashboard_def)

lemma loadDecisions_requests:
  "fst (loadDecisions http st) =
     [\<lparr> req_method = GET, req_url = apiUrl @ ''/decisions?limit='' @ show_nat (limit st),
        req_body = None, req_headers = [] \<rparr>]"
  by (simp add: loadDecisions_def Let_def getDecisions_def catch_get)

lemma loadDecisions_stored:
  "snd (getDecisions http (limit st)) = Inr response \<Longrightarrow> dr_success response \<Longrightarrow>
   snd (loadDecisions http st) =
     st\<lparr> decisions := rev (dr_decisions response), decisions_error := None,
       decisions_loading := False \<rparr>"
  by (simp add: loadDecisions_def Let_def subscribe_def loadDecisions_next_def)

lemma show_25: "show_nat 25 = ''25''"
  by (simp add: show_nat.simps)

lemma show_50: "show_nat 50 = ''50''"
  by (simp add: show_nat.simps)

text \<open>
  C8. The limit of the decisions view starts at 50. A load issues exactly one request, the
  list call with the current limit, and when the response says success the view stores
  the reverse of the list the backend returned.
\<close>

theorem decisions_newest_first:
  "limit decisions_init = 50 \<and>
   fst (loadDecisions http st) =
     [\<lparr> req_method = GET, req_url = apiUrl @ ''/decisions?limit='' @ show_nat (limit st),
        req_body = None, req_headers = [] \<rparr>] \<and>
   (snd (getDecisions http (limit st)) = Inr response \<and> dr_success response \<longrightarrow>
      decisions (snd (loadDecisions http st)) = rev (dr_decisions response))"
  using loadDecisions_requests [of http st] loadDecisions_stored [of http st response]
  by (simp add: decisions_init_def)

theorem decisions_newest_first_witness:
  "fst (loadDecisions decisions_backend loaded_decisions) =
     [\<lparr> req_method = GET, req_url = ''http://localhost:5404/decisions?limit=25'',
        req_body = None, req_headers = [] \<rparr>] \<and>
   decisions (snd (loadDecisions decisions_backend loaded_decisions)) =
     [enhanced_decision, legacy_decision] \<and>
   fst (loadDecisions decisions_backend decisions_init) =
     [\<lparr> req_method = GET, req_url = ''http://localhost:5404/decisions?limit=50'',
        req_body = None, req_headers = [] \<rparr>]"
  using decisions_newest_first [of decisions_backend loaded_decisions two_decisions]
    decisions_newest_first [of decisions_backend decisions_init two_decisions]
  by (simp add: getDecisions_def catch_get decisions_backend_def loaded_decisions_def
      two_decisions_def apiUrl_def show_25 show_50)

lemma loadPods_refused:
  "snd (getPods http) = Inr response \<Longrightarrow> \<not> pods_success response \<Longrightarrow>
   snd (loadPods http st) = st\<lparr> pods_error := None, pods_loading := False \<rparr>"
  by (simp add: loadPods_def Let_def subscribe_def loadPods_next_def)

lemma loadDecisions_refused:
  "snd (getDecisions http (limit st)) = Inr response \<Longrightarrow> \<not> dr_success response \<Longrightarrow>
   snd (loadDecisions http st) = st\<lparr> decisions_error := None, decisions_loading := False \<rparr>"
  by (simp add: loadDecisions_def Let_def subscribe_def loadDecisions_next_def)

lemma refresh_refused:
  "snd (getStatistics (http_statistics h)) = Inr response \<Longrightarrow> \<not> sr_success response \<Longrightarrow>
   snd (refresh_tick h st) = st"
  by (simp add: refresh_tick_def Let_def subscribe_def loadStatistics_next_def)

lemma loadDashboard_statistics_refused:
  assumes "snd (getStatistics (http_statistics h)) = Inr response" "\<not> sr_success response"
  shows "statistics (snd (loadDashboard h arrival st)) = statistics st"
  using assms by (simp add: loadDashboard_state fold_statistics_kept)

lemma loadDashboard_pending:
  "ConfigCall \<notin> set arrival \<Longrightarrow> dashboard_loading (snd (loadDashboard h arrival st))"
  by (simp add: loadDashboard_state fold_loading_kept)

lemma toggle_stop_refused:
  "autoscaleStatus st = Some status \<Longrightarrow> as_enabled status \<Longrightarrow>
   snd (stopAutoscale (http_stop h)) = Inr response \<Longrightarrow> \<not> stop_success response \<Longrightarrow>
   snd (toggleAutoscale h arrival st) = st"
  by (simp add: toggleAutoscale_def Let_def)

lemma toggle_start_refused:
  "autoscaleStatus st = Some status \<Longrightarrow> \<not> as_enabled status \<Longrightarrow>
   snd (startAutoscale (http_start h)) = Inr response \<Longrightarrow> \<not> start_success response \<Longrightarrow>
   snd (toggleAutoscale h arrival st) = st"
  by (simp add: toggleAutoscale_def Let_def)

lemma scaleAll_refused:
  "snd (scaleAllPods (http_scale_all h)) = Inr response \<Longrightarrow> \<not> sa_success response \<Longrightarrow>
   snd (scaleAllNow h arrival st) = st"
  by (simp add: scaleAllNow_def Let_def)

lemma pods_scalePod_refused:
  "snd (scalePod http (p_namespace p) (p_name p)) = Inr response \<Longrightarrow>
   snd (pods_scalePod http True p st) = st\<lparr> scalingPod := None \<rparr>"
  by (simp add: pods_scalePod_def Let_def subscribe_def pods_scalePod_next_def)

lemma saveConfig_refused:
  "config st = Some c \<Longrightarrow> snd (updateConfig http (saveConfig_updates c)) = Inr response \<Longrightarrow>
   \<not> up_success response \<Longrightarrow>
   snd (saveConfig http st) = st\<lparr> saving := False, config_error := None, config_success := None \<rparr>"
  by (simp add: saveConfig_def Let_def subscribe_def saveConfig_next_def)

text \<open>
  C10, as the claim states it, fails for the dashboard: when the statistics call of the load
  completes with \<^verbatim>\<open>success: false\<close> and the config call has not completed, loading is
  still true.
\<close>

theorem statistics_refused_loading_counterexample:
  "snd (getStatistics (http_statistics statistics_refused)) = Inr refused_statistics \<and>
   \<not> sr_success refused_statistics \<and>
   dashboard_loading (snd (loadDashboard statistics_refused [StatisticsCall] dashboard_init))"
  by (simp add: getStatistics_def getAutoscaleStatus_def getConfig_def catch_get
      statistics_refused_def refused_statistics_def loadDashboard_def Let_def subscribe_def
      loadStatistics_next_def dashboard_init_def)

text \<open>
  C10, amended. When a call completes with a body whose \<^verbatim>\<open>success\<close> flag is false, the
  controller stores nothing of the response and no error string. The loads of the pods
  and decisions views end with their data as it was, no error and loading false. In the
  dashboard the statistics callback, the refresh, \<^verbatim>\<open>toggleAutoscale\<close> and
  \<^verbatim>\<open>scaleAllNow\<close> leave the whole state as it was, and after a load the statistics are
  as before and loading stays true until the config call completes. \<^verbatim>\<open>scalePod\<close> of
  the pods view only clears \<^verbatim>\<open>scalingPod\<close>, and \<^verbatim>\<open>saveConfig\<close> only sets saving to
  false, having cleared the two messages at its start.
\<close>

theorem refused_response_rule:
  "(snd (getPods hpods) = Inr pr \<and> \<not> pods_success pr \<longrightarrow>
      snd (loadPods hpods ps) = ps\<lparr> pods_error := None, pods_loading := False \<rparr>) \<and>
   (snd (getDecisions hdec (limit ds)) = Inr dr \<and> \<not> dr_success dr \<longrightarrow>
      snd (loadDecisions hdec ds) =
        ds\<lparr> decisions_error := None, decisions_loading := False \<rparr>) \<and>
   (snd (getStatistics (http_statistics h)) = Inr sr \<and> \<not> sr_success sr \<longrightarrow>
      loadStatistics_next sr st = st \<and>
      snd (refresh_tick h st) = st \<and>
      statistics (snd (loadDashboard h arrival st)) = statistics st \<and>
      (ConfigCall \<notin> set arrival \<longrightarrow> dashboard_loading (snd (loadDashboard h arrival st)))) \<and>
   (autoscaleStatus st = Some status \<and> as_enabled status \<and>
      snd (stopAutoscale (http_stop h)) = Inr stopped \<and> \<not> stop_success stopped \<longrightarrow>
      snd (toggleAutoscale h arrival st) = st) \<and>
   (autoscaleStatus st = Some status \<and> \<not> as_enabled status \<and>
      snd (startAutoscale (http_start h)) = Inr started \<and> \<not> start_success started \<longrightarrow>
      snd (toggleAutoscale h arrival st) = st) \<and>
   (snd (scaleAllPods (http_scale_all h)) = Inr scaled \<and> \<not> sa_success scaled \<longrightarrow>
      snd (scaleAllNow h arrival st) = st) \<and>
   (snd (scalePod hscale (p_namespace p) (p_name p)) = Inr spr \<and> \<not> sp_success spr \<longrightarrow>
      snd (pods_scalePod hscale True p ps) = ps\<lparr> scalingPod := None \<rparr>) \<and>
   (config cs = Some c \<and> snd (updateConfig hup (saveConfig_updates c)) = Inr ur \<and>
      \<not> up_success ur \<longrightarrow>
      snd (saveConfig hup cs) =
        cs\<lparr> saving := False, config_error := None, config_success := None \<rparr>)"
  using loadPods_refused [of hpods pr ps] loadDecisions_refused [of hdec ds dr]
    refresh_refused [of h sr st] loadDashboard_statistics_refused [of h sr arrival st]
    loadDashboard_pending [of arrival h st]
    toggle_stop_refused [of st status h stopped arrival]
    toggle_start_refused [of st status h started arrival]
    scaleAll_refused [of h scaled arrival st] pods_scalePod_refused [of hscale p spr ps]
    saveConfig_refused [of cs c hup ur]
  by (simp add: loadStatistics_next_def)

theorem refused_response_rule_witness:
  "snd (loadPods (\<lambda>r. Inr refused_pods) loaded_pods) = loaded_pods \<and>
   snd (loadDecisions (\<lambda>r. Inr refused_decisions) loaded_decisions) = loaded_decisions \<and>
   snd (refresh_tick all_refused loaded_dashboard) = loaded_dashboard \<and>
   statistics (snd (loadDashboard all_refused [StatisticsCall] loaded_dashboard)) =
     Some sample_statistics \<and>
   dashboard_loading (snd (loadDashboard all_refused [StatisticsCall] loaded_dashboard)) \<and>
   snd (toggleAutoscale all_refused [] loaded_dashboard) = loaded_dashboard \<and>
   snd (scaleAllNow all_refused [] loaded_dashboard) = loaded_dashboard \<and>
   snd (pods_scalePod (\<lambda>r. Inr refused_scale) True sample_pod loaded_pods) = loaded_pods \<and>
   snd (saveConfig (\<lambda>r. Inr refused_update) loaded_config) = loaded_config"
  using refused_response_rule [where hpods = "\<lambda>r. Inr refused_pods" and pr = refused_pods
      and ps = loaded_pods and hdec = "\<lambda>r. Inr refused_decisions" and ds = loaded_decisions
      and dr = refused_decisions and h = all_refused and sr = refused_statistics
      and st = loaded_dashboard and arrival = "[StatisticsCall]" and status = sample_status
      and stopped = "\<lparr> stop_success = False, stop_message = ''no'' \<rparr>"
      and started = "\<lparr> start_success = False, start_message = ''no'', start_interval = 60 \<rparr>"
      and scaled = "\<lparr> sa_success = False, sa_processed = 0, sa_results = [],
           sa_statistics = sample_statistics, sa_timestamp = ''2025-01-01T00:00:00'' \<rparr>"
      and hscale = "\<lambda>r. Inr refused_scale" and p = sample_pod and spr = refused_scale
      and hup = "\<lambda>r. Inr refused_update" and cs = loaded_config and c = sample_config
      and ur = refused_update]
    refused_response_rule [where hpods = "\<lambda>r. Inr refused_pods" and pr = refused_pods
      and ps = loaded_pods and hdec = "\<lambda>r. Inr refused_decisions" and ds = loaded_decisions
      and dr = refused_decisions and h = all_refused and sr = refused_statistics
      and st = loaded_dashboard and arrival = "[]" and status = sample_status
      and stopped = "\<lparr> stop_success = False, stop_message = ''no'' \<rparr>"
      and started = "\<lparr> start_success = False, start_message = ''no'', start_interval = 60 \<rparr>"
      and scaled = "\<lparr> sa_success = False, sa_processed = 0, sa_results = [],
           sa_statistics = sample_statistics, sa_timestamp = ''2025-01-01T00:00:00'' \<rparr>"
      and hscale = "\<lambda>r. Inr refused_scale" and p = sample_pod and spr = refused_scale
      and hup = "\<lambda>r. Inr refused_update" and cs = loaded_config and c = sample_config
      and ur = refused_update]
  by (simp add: getPods_def getDecisions_def getStatistics_def stopAutoscale_def
      startAutoscale_def scaleAllPods_def scalePod_def updateConfig_def catch_get catch_post
      all_refused_def refused_pods_def refused_decisions_def refused_statistics_def
      refused_scale_def refused_update_def loaded_pods_def loaded_decisions_def
      loaded_dashboard_def loaded_config_def sample_status_def)

end
